theory Spec2Isabelle
  imports Main "HOL-Library.AList" "HOL-Library.Sublist"
begin

section \<open>Python strings\<close>

text \<open>
  A Python \<open>str\<close> is a sequence of Unicode code points; it is modelled as a list of
  natural numbers, so that \<open>len\<close>, slicing and the regular expressions count what Python
  counts. ASCII literals are written with \<open>ustr\<close>; other characters by their code point
  (for example 269 for U+010D, 8594 for the arrow U+2192).
\<close>

type_synonym ustring = "nat list"

definition ustr :: "string \<Rightarrow> ustring" where
  "ustr s = map of_char s"

text \<open>
  The decimal-digit table of Unicode (category Nd, with the digit values) beyond ASCII is
  not part of the program; it is a parameter \<open>nd\<close> of every function that depends on it.
  There is no decimal digit between U+003A and U+065F, so the table is only consulted
  from U+0660 on.
\<close>

type_synonym ucd = "nat \<Rightarrow> nat option"

definition digit_value :: "ucd \<Rightarrow> nat \<Rightarrow> nat option" where
  "digit_value nd c =
     (if 48 \<le> c \<and> c \<le> 57 then Some (c - 48) else if c < 1632 then None else nd c)"

definition is_digit :: "ucd \<Rightarrow> nat \<Rightarrow> bool" where
  "is_digit nd c = (digit_value nd c \<noteq> None)"

text \<open>\<open>str.isspace\<close> for one character; also the class \<open>\s\<close> of \<open>re\<close> on \<open>str\<close> patterns.\<close>

definition py_isspace :: "nat \<Rightarrow> bool" where
  "py_isspace c =
     ((9 \<le> c \<and> c \<le> 13) \<or> (28 \<le> c \<and> c \<le> 32) \<or> c = 133 \<or> c = 160 \<or> c = 5760 \<or>
      (8192 \<le> c \<and> c \<le> 8202) \<or> c = 8232 \<or> c = 8233 \<or> c = 8239 \<or> c = 8287 \<or> c = 12288)"

text \<open>\<open>s.strip()\<close>\<close>

definition strip :: "ustring \<Rightarrow> ustring" where
  "strip s = rev (dropWhile py_isspace (rev (dropWhile py_isspace s)))"

text \<open>\<open>s.split()\<close>: the maximal runs of non-whitespace characters.\<close>

fun split_aux :: "ustring \<Rightarrow> ustring \<Rightarrow> ustring list" where
  "split_aux [] cur = (if cur = [] then [] else [cur])"
| "split_aux (c # cs) cur =
     (if py_isspace c then (if cur = [] then split_aux cs [] else cur # split_aux cs [])
      else split_aux cs (cur @ [c]))"

definition split_ws :: "ustring \<Rightarrow> ustring list" where
  "split_ws s = split_aux s []"

text \<open>\<open>sep.join(xs)\<close>\<close>

fun join :: "ustring \<Rightarrow> ustring list \<Rightarrow> ustring" where
  "join sep [] = []"
| "join sep [x] = x"
| "join sep (x # y # ys) = x @ sep @ join sep (y # ys)"

text \<open>\<open>s.replace(a, b)\<close> for a one-character \<open>a\<close>.\<close>

definition replace_char :: "nat \<Rightarrow> ustring \<Rightarrow> ustring \<Rightarrow> ustring" where
  "replace_char a b s = concat (map (\<lambda>c. if c = a then b else [c]) s)"

text \<open>\<open>str(n)\<close> for a natural number.\<close>

fun str_nat :: "nat \<Rightarrow> ustring" where
  "str_nat n = (if n < 10 then [48 + n] else str_nat (n div 10) @ [48 + n mod 10])"

declare str_nat.simps [simp del]

text \<open>How an f-string shows an optional string: \<open>None\<close> is printed as the word None.\<close>

definition fmt_opt :: "ustring option \<Rightarrow> ustring" where
  "fmt_opt v = (case v of None \<Rightarrow> ustr ''None'' | Some s \<Rightarrow> s)"


section \<open>Python floats\<close>

text \<open>
  A \<open>float\<close> is an IEEE 754 binary64 value. A finite value is kept exactly, as sign,
  mantissa and binary exponent: \<open>Fin s m e\<close> is \<open>(-1)^s * m * 2^e\<close>. Every operation
  computes the exact result as a fraction of two naturals and rounds it to the nearest
  representable value, ties to even, as the hardware does.
\<close>

datatype pyfloat = Fin bool nat int | Inf bool | NaN

fun bits :: "nat \<Rightarrow> nat" where
  "bits n = (if n = 0 then 0 else Suc (bits (n div 2)))"

declare bits.simps [simp del]

definition round_half_even :: "nat \<Rightarrow> nat \<Rightarrow> nat" where
  "round_half_even n d =
     (let q = n div d; r = n mod d
      in if 2 * r < d then q else if d < 2 * r then q + 1 else if even q then q else q + 1)"

definition ge_pow2 :: "nat \<Rightarrow> nat \<Rightarrow> int \<Rightarrow> bool" where
  "ge_pow2 n d k = (if 0 \<le> k then d * 2 ^ nat k \<le> n else d \<le> n * 2 ^ nat (- k))"

text \<open>\<open>ilog2 n d\<close> is the integer part of the binary logarithm of \<open>n / d\<close>.\<close>

definition ilog2 :: "nat \<Rightarrow> nat \<Rightarrow> int" where
  "ilog2 n d = (let k = int (bits n) - int (bits d) in if ge_pow2 n d k then k else k - 1)"

text \<open>
  Rounding \<open>n / d\<close> to binary64: 53 bits of mantissa, the exponent of the last place
  not below \<open>-1074\<close> (subnormal numbers), and infinity from \<open>2^1024\<close> on.
\<close>

definition round_binary64 :: "bool \<Rightarrow> nat \<Rightarrow> nat \<Rightarrow> pyfloat" where
  "round_binary64 s n d =
     (if n = 0 then Fin s 0 0
      else
        let t = max (ilog2 n d) (- 1022) - 52;
            m = (if 0 \<le> t then round_half_even n (d * 2 ^ nat t)
                 else round_half_even (n * 2 ^ nat (- t)) d)
        in if 971 < t \<or> (t = 971 \<and> 2 ^ 53 \<le> m) then Inf s
           else if m = 0 then Fin s 0 0
           else Fin s m t)"

text \<open>\<open>m * 2^e\<close> as a fraction.\<close>

definition ratio_of :: "nat \<Rightarrow> int \<Rightarrow> nat \<times> nat" where
  "ratio_of m e = (if 0 \<le> e then (m * 2 ^ nat e, 1) else (m, 2 ^ nat (- e)))"

definition signed :: "bool \<Rightarrow> nat \<Rightarrow> int" where
  "signed s m = (if s then - int m else int m)"

text \<open>\<open>a - b\<close>\<close>

fun fsub :: "pyfloat \<Rightarrow> pyfloat \<Rightarrow> pyfloat" where
  "fsub NaN b = NaN"
| "fsub a NaN = NaN"
| "fsub (Inf s) (Inf t) = (if s = t then NaN else Inf s)"
| "fsub (Inf s) (Fin t k f) = Inf s"
| "fsub (Fin s m e) (Inf t) = Inf (\<not> t)"
| "fsub (Fin s m e) (Fin t k f) =
     (let g = min e f;
          r = signed s (m * 2 ^ nat (e - g)) - signed t (k * 2 ^ nat (f - g))
      in if r = 0 then Fin (m = 0 \<and> s \<and> \<not> t) 0 0
         else (case ratio_of (nat \<bar>r\<bar>) g of (n, d) \<Rightarrow> round_binary64 (r < 0) n d))"

text \<open>\<open>a / b\<close>; \<open>None\<close> is \<open>ZeroDivisionError\<close>.\<close>

fun fdiv :: "pyfloat \<Rightarrow> pyfloat \<Rightarrow> pyfloat option" where
  "fdiv a (Fin t k f) =
     (if k = 0 then None
      else (case a of
              NaN \<Rightarrow> Some NaN
            | Inf s \<Rightarrow> Some (Inf (s \<noteq> t))
            | Fin s m e \<Rightarrow>
                Some (round_binary64 (s \<noteq> t) (m * 2 ^ nat (e - f)) (k * 2 ^ nat (f - e)))))"
| "fdiv a NaN = Some NaN"
| "fdiv NaN (Inf t) = Some NaN"
| "fdiv (Inf s) (Inf t) = Some NaN"
| "fdiv (Fin s m e) (Inf t) = Some (Fin (s \<noteq> t) 0 0)"

text \<open>\<open>a * b\<close>\<close>

fun fmul :: "pyfloat \<Rightarrow> pyfloat \<Rightarrow> pyfloat" where
  "fmul NaN b = NaN"
| "fmul a NaN = NaN"
| "fmul (Inf s) (Inf t) = Inf (s \<noteq> t)"
| "fmul (Inf s) (Fin t k f) = (if k = 0 then NaN else Inf (s \<noteq> t))"
| "fmul (Fin s m e) (Inf t) = (if m = 0 then NaN else Inf (s \<noteq> t))"
| "fmul (Fin s m e) (Fin t k f) =
     (case ratio_of (m * k) (e + f) of (n, d) \<Rightarrow> round_binary64 (s \<noteq> t) n d)"

text \<open>\<open>a != 0\<close>\<close>

fun fne_zero :: "pyfloat \<Rightarrow> bool" where
  "fne_zero (Fin s m e) = (m \<noteq> 0)"
| "fne_zero (Inf s) = True"
| "fne_zero NaN = True"

text \<open>
  The format specifications \<open>.2f\<close> (\<open>forced = False\<close>) and \<open>+.2f\<close> (\<open>forced = True\<close>): the
  exact binary value, correctly rounded to two fraction digits.
\<close>

definition sign_str :: "bool \<Rightarrow> bool \<Rightarrow> ustring" where
  "sign_str forced s = (if s then ustr ''-'' else if forced then ustr ''+'' else [])"

fun format_2f :: "bool \<Rightarrow> pyfloat \<Rightarrow> ustring" where
  "format_2f forced NaN = sign_str forced False @ ustr ''nan''"
| "format_2f forced (Inf s) = sign_str forced s @ ustr ''inf''"
| "format_2f forced (Fin s m e) =
     (case ratio_of (m * 100) e of (n, d) \<Rightarrow>
        let c = round_half_even n d
        in sign_str forced s @ str_nat (c div 100) @ ustr ''.'' @
           [48 + c mod 100 div 10, 48 + c mod 10])"

subsection \<open>The constructor \<open>float(s)\<close>\<close>

definition is_adigit :: "nat \<Rightarrow> bool" where
  "is_adigit c = (48 \<le> c \<and> c \<le> 57)"

definition is_aspace :: "nat \<Rightarrow> bool" where
  "is_aspace c = ((9 \<le> c \<and> c \<le> 13) \<or> c = 32)"

definition lower_ascii :: "nat \<Rightarrow> nat" where
  "lower_ascii c = (if 65 \<le> c \<and> c \<le> 90 then c + 32 else c)"

text \<open>Non-ASCII spaces and decimal digits are first replaced by their ASCII counterparts.\<close>

definition to_ascii :: "ucd \<Rightarrow> nat \<Rightarrow> nat" where
  "to_ascii nd c =
     (if c < 127 then c
      else if py_isspace c then 32
      else (case digit_value nd c of Some v \<Rightarrow> 48 + v | None \<Rightarrow> 63))"

text \<open>An underscore is only allowed between two digits.\<close>

fun underscores_ok :: "nat \<Rightarrow> ustring \<Rightarrow> bool" where
  "underscores_ok prev [] = (prev \<noteq> 95)"
| "underscores_ok prev (c # cs) =
     ((if c = 95 then is_adigit prev else if prev = 95 then is_adigit c else True) \<and>
      underscores_ok c cs)"

definition strip_ascii :: "ustring \<Rightarrow> ustring" where
  "strip_ascii s = rev (dropWhile is_aspace (rev (dropWhile is_aspace s)))"

definition split_sign :: "ustring \<Rightarrow> bool \<times> ustring" where
  "split_sign s =
     (case s of
        [] \<Rightarrow> (False, [])
      | c # cs \<Rightarrow> if c = 45 then (True, cs) else if c = 43 then (False, cs) else (False, s))"

definition nat_of_digits :: "ustring \<Rightarrow> nat" where
  "nat_of_digits ds = foldl (\<lambda>a c. 10 * a + (c - 48)) 0 ds"

text \<open>
  Digits, an optional point with digits, an optional exponent; at least one digit
  before the exponent. The result is the mantissa as a natural number and the decimal
  exponent.
\<close>

definition parse_decimal :: "ustring \<Rightarrow> (nat \<times> int) option" where
  "parse_decimal body =
     (let ip = takeWhile is_adigit body;
          r1 = dropWhile is_adigit body;
          fp = (case r1 of [] \<Rightarrow> [] | c # cs \<Rightarrow> if c = 46 then takeWhile is_adigit cs else []);
          r2 = (case r1 of [] \<Rightarrow> [] | c # cs \<Rightarrow> if c = 46 then dropWhile is_adigit cs else r1)
      in if ip = [] \<and> fp = [] then None
         else (case r2 of
                 [] \<Rightarrow> Some (nat_of_digits (ip @ fp), - int (length fp))
               | c # cs \<Rightarrow>
                   if c = 101 \<or> c = 69 then
                     (case split_sign cs of (neg, ds) \<Rightarrow>
                        if ds \<noteq> [] \<and> list_all is_adigit ds
                        then Some (nat_of_digits (ip @ fp),
                                   signed neg (nat_of_digits ds) - int (length fp))
                        else None)
                   else None))"

text \<open>\<open>float(s)\<close>; \<open>None\<close> is \<open>ValueError\<close>.\<close>

definition py_float :: "ucd \<Rightarrow> ustring \<Rightarrow> pyfloat option" where
  "py_float nd s =
     (let a = map (to_ascii nd) s
      in if \<not> underscores_ok 0 a then None
         else
           (case split_sign (strip_ascii (filter (\<lambda>c. c \<noteq> 95) a)) of (neg, body) \<Rightarrow>
              let low = map lower_ascii body
              in if low = ustr ''inf'' \<or> low = ustr ''infinity'' then Some (Inf neg)
                 else if low = ustr ''nan'' then Some NaN
                 else (case parse_decimal body of
                         None \<Rightarrow> None
                       | Some (m, e10) \<Rightarrow>
                           Some (if 0 \<le> e10 then round_binary64 neg (m * 10 ^ nat e10) 1
                                 else round_binary64 neg m (10 ^ nat (- e10))))))"


section \<open>Snapshots and the differ\<close>

text \<open>
  The snapshot dictionary built by \<open>check_page\<close>, with its four keys, and the report
  dictionary returned by \<open>summarize_changes\<close>.
\<close>

record snapshot =
  price :: "ustring option"
  availability :: "ustring option"
  details :: "ustring list"
  checked_at :: ustring

record report =
  changed :: bool
  changes :: "ustring list"
  old :: "snapshot option"
  new :: snapshot

text \<open>\<open>x or ""\<close>\<close>

definition or_empty :: "ustring option \<Rightarrow> ustring" where
  "or_empty v = (case v of None \<Rightarrow> [] | Some s \<Rightarrow> s)"

text \<open>\<open>float(x) if x is not None else None\<close>; the outer \<open>None\<close> is \<open>ValueError\<close>.\<close>

definition float_if_given :: "ucd \<Rightarrow> ustring option \<Rightarrow> pyfloat option option" where
  "float_if_given nd v =
     (case v of
        None \<Rightarrow> Some None
      | Some s \<Rightarrow> (case py_float nd s of None \<Rightarrow> None | Some x \<Rightarrow> Some (Some x)))"

definition hundred :: pyfloat where
  "hundred = Fin False 100 0"

text \<open>
  The \<open>try\<close> block of the price comparison: what is appended to the last message. An
  exception anywhere in the block is caught and nothing is appended.
\<close>

definition percent_suffix :: "ucd \<Rightarrow> ustring option \<Rightarrow> ustring option \<Rightarrow> ustring" where
  "percent_suffix nd old_price new_price =
     (case float_if_given nd old_price of
        None \<Rightarrow> []
      | Some a \<Rightarrow>
          (case float_if_given nd new_price of
             None \<Rightarrow> []
           | Some b \<Rightarrow>
               (case a of
                  None \<Rightarrow> []
                | Some x \<Rightarrow>
                    (case b of
                       None \<Rightarrow> []
                     | Some y \<Rightarrow>
                         if fne_zero x then
                           (case fdiv (fsub y x) x of
                              None \<Rightarrow> []
                            | Some q \<Rightarrow>
                                ustr '' ('' @ format_2f True (fmul q hundred) @ ustr ''%)'')
                         else []))))"

definition arrow :: ustring where
  "arrow = [32, 8594, 32]"

definition price_message :: "ucd \<Rightarrow> ustring option \<Rightarrow> ustring option \<Rightarrow> ustring" where
  "price_message nd old_price new_price =
     ustr ''Cena: '' @ fmt_opt old_price @ arrow @ fmt_opt new_price @
     percent_suffix nd old_price new_price"

definition compare_price ::
  "ucd \<Rightarrow> snapshot \<Rightarrow> snapshot \<Rightarrow> bool \<times> ustring list \<Rightarrow> bool \<times> ustring list" where
  "compare_price nd old_snapshot new_snapshot acc =
     (let old_price = price old_snapshot; new_price = price new_snapshot
      in if or_empty old_price \<noteq> or_empty new_price
         then (True, snd acc @ [price_message nd old_price new_price])
         else acc)"

definition availability_message :: "ustring option \<Rightarrow> ustring option \<Rightarrow> ustring" where
  "availability_message old_av new_av =
     ustr ''Dostupnost: '' @ fmt_opt old_av @ arrow @ fmt_opt new_av"

definition compare_availability ::
  "snapshot \<Rightarrow> snapshot \<Rightarrow> bool \<times> ustring list \<Rightarrow> bool \<times> ustring list" where
  "compare_availability old_snapshot new_snapshot acc =
     (if or_empty (availability old_snapshot) \<noteq> or_empty (availability new_snapshot)
      then (True, snd acc @
              [availability_message (availability old_snapshot) (availability new_snapshot)])
      else acc)"

text \<open>\<open>[d for d in xs if d not in ys]\<close>\<close>

definition not_in :: "ustring list \<Rightarrow> ustring list \<Rightarrow> ustring list" where
  "not_in xs ys = filter (\<lambda>d. d \<notin> set ys) xs"

definition added_prefix :: ustring where
  "added_prefix = [80, 345, 105, 100, 225, 110, 111] @ ustr '' v podrobnostech: ''"

definition removed_prefix :: ustring where
  "removed_prefix = [79, 100, 101, 98, 114, 225, 110, 111] @ ustr '' v podrobnostech: ''"

definition compare_details ::
  "snapshot \<Rightarrow> snapshot \<Rightarrow> bool \<times> ustring list \<Rightarrow> bool \<times> ustring list" where
  "compare_details old_snapshot new_snapshot acc =
     (let old_det = details old_snapshot;
          new_det = details new_snapshot;
          added = not_in new_det old_det;
          removed = not_in old_det new_det;
          acc1 = (if added \<noteq> []
                  then (True, snd acc @ [added_prefix @ join (ustr ''; '') (take 10 added)])
                  else acc)
      in if removed \<noteq> []
         then (True, snd acc1 @ [removed_prefix @ join (ustr ''; '') (take 10 removed)])
         else acc1)"

definition no_prior_message :: ustring where
  "no_prior_message =
     [381, 225, 100, 110, 253, 32, 112, 345, 101, 100, 99, 104, 111, 122, 237, 32,
      122, 225, 122, 110, 97, 109, 32, 8212, 32, 117, 108, 111, 382, 101, 110, 111] @
     ustr '' jako v'' @ [253] @ ustr ''choz'' @ [237] @ ustr '' stav.''"

definition summarize_changes :: "ucd \<Rightarrow> snapshot option \<Rightarrow> snapshot \<Rightarrow> report" where
  "summarize_changes nd old_snapshot new_snapshot =
     (case old_snapshot of
        None \<Rightarrow>
          \<lparr>changed = True, changes = [no_prior_message], old = None, new = new_snapshot\<rparr>
      | Some prior \<Rightarrow>
          (case compare_details prior new_snapshot
                  (compare_availability prior new_snapshot
                     (compare_price nd prior new_snapshot (False, []))) of
             (c, cs) \<Rightarrow>
               \<lparr>changed = c, changes = cs, old = old_snapshot, new = new_snapshot\<rparr>))"


section \<open>Regular expressions\<close>

text \<open>
  The patterns of the program are values of a small datatype, and \<open>re.search\<close> is the
  backtracking matcher of Python: alternatives are tried from left to right, a repetition
  prefers one more iteration to stopping, and the first success at the leftmost starting
  position is the match. \<open>ms\<close> lists all ways to match at one position, in the order in
  which backtracking finds them; a state is the rest of the input with the groups
  captured so far.
\<close>

datatype cclass =
    Lit nat              \<comment> \<open>a literal character\<close>
  | LitI nat             \<comment> \<open>a literal character under \<open>re.IGNORECASE\<close>\<close>
  | OneOf "nat list"     \<comment> \<open>\<open>[...]\<close>\<close>
  | NoneOf "nat list"    \<comment> \<open>\<open>[^...]\<close>\<close>
  | Digit                \<comment> \<open>\<open>\d\<close>\<close>
  | Space                \<comment> \<open>\<open>\s\<close>\<close>
  | Dot                  \<comment> \<open>\<open>.\<close>: anything but a newline\<close>

text \<open>
  Lower-casing as \<open>re\<close> does it for one character, on the Latin letters that occur in
  the patterns of the program, with the three characters of other blocks that lower-case
  to a Latin letter (U+0130, U+212A, U+212B). Under \<open>IGNORECASE\<close> the letters i and s
  also match U+0131 and U+017F.
\<close>

definition unicode_tolower :: "nat \<Rightarrow> nat" where
  "unicode_tolower c =
     (if 65 \<le> c \<and> c \<le> 90 then c + 32
      else if 192 \<le> c \<and> c \<le> 222 \<and> c \<noteq> 215 then c + 32
      else if c = 304 then 105
      else if c = 8490 then 107
      else if c = 8491 then 229
      else c)"

definition ci_eq :: "nat \<Rightarrow> nat \<Rightarrow> bool" where
  "ci_eq c x =
     (unicode_tolower x = unicode_tolower c \<or>
      (unicode_tolower c = 105 \<and> unicode_tolower x = 305) \<or>
      (unicode_tolower c = 115 \<and> unicode_tolower x = 383))"

fun cclass_match :: "ucd \<Rightarrow> cclass \<Rightarrow> nat \<Rightarrow> bool" where
  "cclass_match nd (Lit c) x = (x = c)"
| "cclass_match nd (LitI c) x = ci_eq c x"
| "cclass_match nd (OneOf cs) x = (x \<in> set cs)"
| "cclass_match nd (NoneOf cs) x = (x \<notin> set cs)"
| "cclass_match nd Digit x = is_digit nd x"
| "cclass_match nd Space x = py_isspace x"
| "cclass_match nd Dot x = (x \<noteq> 10)"

datatype re =
    Eps
  | Atom cclass
  | Seq re re
  | Alt re re
  | Rep re nat "nat option"   \<comment> \<open>greedy \<open>{lo,hi}\<close>; no upper bound is \<open>None\<close>\<close>
  | Grp nat re                \<comment> \<open>capturing group number \<open>n\<close>\<close>

type_synonym mstate = "ustring \<times> (nat \<times> ustring) list"

fun rep :: "(mstate \<Rightarrow> mstate list) \<Rightarrow> nat \<Rightarrow> nat \<Rightarrow> mstate \<Rightarrow> mstate list" where
  "rep f lo 0 s = (if lo = 0 then [s] else [])"
| "rep f lo (Suc hi) s =
     concat (map (rep f (lo - 1) hi) (f s)) @ (if lo = 0 then [s] else [])"

text \<open>
  In every unbounded repetition of the program the body consumes at least one character,
  so the number of iterations is at most the length of the rest of the input.
\<close>

primrec ms :: "ucd \<Rightarrow> re \<Rightarrow> mstate \<Rightarrow> mstate list" where
  "ms nd Eps = (\<lambda>s. [s])"
| "ms nd (Atom k) =
     (\<lambda>s. case fst s of
             [] \<Rightarrow> []
           | x # xs \<Rightarrow> if cclass_match nd k x then [(xs, snd s)] else [])"
| "ms nd (Seq a b) = (\<lambda>s. concat (map (ms nd b) (ms nd a s)))"
| "ms nd (Alt a b) = (\<lambda>s. ms nd a s @ ms nd b s)"
| "ms nd (Rep r lo hi) =
     (\<lambda>s. rep (ms nd r) lo (case hi of None \<Rightarrow> length (fst s) | Some h \<Rightarrow> h) s)"
| "ms nd (Grp n r) =
     (\<lambda>s. map (\<lambda>s'. (fst s', (n, take (length (fst s) - length (fst s')) (fst s)) # snd s'))
               (ms nd r s))"

text \<open>
  \<open>re.search(pattern, text)\<close>: \<open>None\<close>, or the matched text (group 0) with the captured
  groups, most recent first.
\<close>

fun re_search :: "ucd \<Rightarrow> re \<Rightarrow> ustring \<Rightarrow> (ustring \<times> (nat \<times> ustring) list) option" where
  "re_search nd r [] =
     (case ms nd r ([], []) of [] \<Rightarrow> None | s # rest \<Rightarrow> Some ([], snd s))"
| "re_search nd r (c # cs) =
     (case ms nd r (c # cs, []) of
        [] \<Rightarrow> re_search nd r cs
      | s # rest \<Rightarrow> Some (take (length (c # cs) - length (fst s)) (c # cs), snd s))"

text \<open>\<open>m.group(n)\<close> for \<open>n > 0\<close>: \<open>None\<close> when the group took no part in the match.\<close>

definition group :: "(ustring \<times> (nat \<times> ustring) list) \<Rightarrow> nat \<Rightarrow> ustring option" where
  "group m n = map_of (snd m) n"

definition group0 :: "(ustring \<times> (nat \<times> ustring) list) \<Rightarrow> ustring" where
  "group0 m = fst m"

definition lit :: "ustring \<Rightarrow> re" where
  "lit s = foldr (\<lambda>c r. Seq (Atom (Lit c)) r) s Eps"

text \<open>A literal under \<open>re.IGNORECASE\<close>; also \<open>re.escape(keyword)\<close> under that flag.\<close>

definition lit_i :: "ustring \<Rightarrow> re" where
  "lit_i s = foldr (\<lambda>c r. Seq (Atom (LitI c)) r) s Eps"

definition seqs :: "re list \<Rightarrow> re" where
  "seqs rs = foldr Seq rs Eps"

definition opt :: "re \<Rightarrow> re" where
  "opt r = Rep r 0 (Some 1)"

definition star :: "re \<Rightarrow> re" where
  "star r = Rep r 0 None"

definition plus_re :: "re \<Rightarrow> re" where
  "plus_re r = Rep r 1 None"


section \<open>The normalizer\<close>

datatype exn = Error ustring

definition message :: "exn \<Rightarrow> ustring" where
  "message e = (case e of Error m \<Rightarrow> m)"

definition kc :: ustring where
  "kc = [75, 269]"

definition czk :: ustring where
  "czk = ustr ''CZK''"

text \<open>\<open>\d{1,3}(?:[ \xa0]\d{3})*(?:[.,]\d+)?\<close>\<close>

definition grouped_number :: re where
  "grouped_number =
     seqs [Rep (Atom Digit) 1 (Some 3),
           star (Seq (Atom (OneOf [32, 160])) (Rep (Atom Digit) 3 (Some 3))),
           opt (Seq (Atom (OneOf [46, 44])) (plus_re (Atom Digit)))]"

text \<open>
  \<open>([\u20ac$]|K\u010d|CZK)?\s*([+-]?\d{1,3}(?:[ \xa0]\d{3})*(?:[.,]\d+)?)\s*(K\u010d|CZK|\u20ac|\$)?\<close>
\<close>

definition price_pattern :: re where
  "price_pattern =
     seqs [opt (Grp 1 (Alt (Atom (OneOf [8364, 36])) (Alt (lit kc) (lit czk)))),
           star (Atom Space),
           Grp 2 (Seq (opt (Atom (OneOf [43, 45]))) grouped_number),
           star (Atom Space),
           opt (Grp 3 (Alt (lit kc) (Alt (lit czk) (Alt (Atom (Lit 8364)) (Atom (Lit 36))))))]"

text \<open>\<open>([+-]?\d[\d \xa0\.,]*)\<close>\<close>

definition loose_number_pattern :: re where
  "loose_number_pattern =
     Grp 1 (seqs [opt (Atom (OneOf [43, 45])), Atom Digit,
                  star (Alt (Atom Digit) (Atom (OneOf [32, 160, 46, 44])))])"

text \<open>
  The end of \<open>normalize_price\<close>, from the extracted group on: the separators are removed,
  the comma becomes a point, and the number is printed with two fraction digits; when
  \<open>float\<close> raises, the normalized string is returned. A group that is \<open>None\<close> has no
  \<open>replace\<close>: an \<open>AttributeError\<close>, outside the \<open>try\<close>.
\<close>

definition num_norm :: "ustring \<Rightarrow> ustring" where
  "num_norm num = replace_char 44 (ustr ''.'') (replace_char 32 [] (replace_char 160 [] num))"

definition attribute_error :: "ustring \<Rightarrow> ustring \<Rightarrow> exn" where
  "attribute_error type_name attr =
     Error ([39] @ type_name @ [39] @ ustr '' object has no attribute '' @ [39] @ attr @ [39])"

definition canonical_number :: "ucd \<Rightarrow> ustring option \<Rightarrow> exn + ustring option" where
  "canonical_number nd num =
     (case num of
        None \<Rightarrow> Inl (attribute_error (ustr ''NoneType'') (ustr ''replace''))
      | Some n \<Rightarrow>
          (case py_float nd (num_norm n) of
             Some val \<Rightarrow> Inr (Some (format_2f False val))
           | None \<Rightarrow> Inr (Some (num_norm n))))"

definition normalize_price :: "ucd \<Rightarrow> ustring option \<Rightarrow> exn + ustring option" where
  "normalize_price nd text =
     (case text of
        None \<Rightarrow> Inr None
      | Some tx \<Rightarrow>
          if tx = [] then Inr None
          else
            let t = strip tx
            in (case re_search nd price_pattern t of
                  None \<Rightarrow>
                    (case re_search nd loose_number_pattern t of
                       None \<Rightarrow> Inr (Some t)
                     | Some m2 \<Rightarrow> canonical_number nd (group m2 1))
                | Some m \<Rightarrow> canonical_number nd (group m 2)))"


section \<open>The parsed page and the extractors\<close>

text \<open>
  The page is parsed by BeautifulSoup, which is not part of the program. A parsed page is
  modelled by what it answers to the queries the extractors make; an element by its tag
  name, its \<open>content\<close> attribute, its text (\<open>get_text(" ", strip=True)\<close>) and the texts
  of the list items below it (\<open>find_all("li")\<close>).
\<close>

record element =
  el_name :: ustring
  el_content :: "ustring option"
  el_text :: ustring
  el_items :: "ustring list"

record soup =
  sel_price :: "element option"
    \<comment> \<open>\<open>select_one('[itemprop="price"], meta[itemprop="price"]')\<close>\<close>
  text_spaces :: ustring
    \<comment> \<open>\<open>get_text(" ", strip=True)\<close>\<close>
  sel_price_class :: "element option"
    \<comment> \<open>\<open>select_one('[class*="price"], [id*="price"]')\<close>\<close>
  sel_availability :: "element option"
    \<comment> \<open>\<open>select_one('[itemprop="availability"], [class*="availability"], [id*="availability"]')\<close>\<close>
  text_lines :: ustring
    \<comment> \<open>\<open>get_text("\n", strip=True)\<close>\<close>
  headings :: "ustring \<Rightarrow> element list list"
    \<comment> \<open>\<open>find_all(header_tag, string=re.compile(r'podrobnost', re.IGNORECASE))\<close>; each
        heading is given by the chain of its \<open>find_next_sibling()\<close>\<close>
  spec_lists :: "element option list"
    \<comment> \<open>for each text node matching the specification words: \<open>parent.find_next("ul")\<close>\<close>
  all_items :: "ustring list"
    \<comment> \<open>the texts of \<open>find_all("li")\<close>\<close>

text \<open>\<open>(\d{1,3}(?:[ \xa0]\d{3})*(?:[.,]\d+)?)[ ]*(K\u010d|CZK)\<close>\<close>

definition currency_pattern :: re where
  "currency_pattern =
     seqs [Grp 1 grouped_number, star (Atom (OneOf [32])), Grp 2 (Alt (lit kc) (lit czk))]"

definition extract_price :: "ucd \<Rightarrow> soup \<Rightarrow> exn + ustring option" where
  "extract_price nd sp =
     (case sel_price sp of
        Some el \<Rightarrow>
          if el_name el = ustr ''meta'' then normalize_price nd (el_content el)
          else normalize_price nd (Some (el_text el))
      | None \<Rightarrow>
          (case re_search nd currency_pattern (text_spaces sp) of
             Some m \<Rightarrow> normalize_price nd (Some (group0 m))
           | None \<Rightarrow>
               (case sel_price_class sp of
                  Some price_el \<Rightarrow> normalize_price nd (Some (el_text price_el))
                | None \<Rightarrow> Inr None)))"

text \<open>\<open>(Dostupnost\s*[:\-]?\s*([^\n\r]+))\<close> under \<open>re.IGNORECASE\<close>\<close>

definition availability_pattern :: re where
  "availability_pattern =
     Grp 1 (seqs [lit_i (ustr ''Dostupnost''), star (Atom Space), opt (Atom (OneOf [58, 45])),
                  star (Atom Space), Grp 2 (plus_re (Atom (NoneOf [10, 13])))])"

definition keyword_list :: "ustring list" where
  "keyword_list =
     [ustr ''Skladem'',
      ustr ''Vyprod'' @ [225] @ ustr ''no'',
      ustr ''Nen'' @ [237] @ ustr '' skladem'',
      ustr ''Do t'' @ [253] @ ustr ''dne'',
      ustr ''Na objedn'' @ [225] @ ustr ''vku'',
      ustr ''Dostupn'' @ [233],
      ustr ''Available'',
      ustr ''Out of stock'',
      ustr ''In stock'']"

text \<open>\<open>r'.{0,40}' + re.escape(keyword) + r'.{0,40}'\<close> under \<open>re.IGNORECASE\<close>\<close>

definition context_pattern :: "ustring \<Rightarrow> re" where
  "context_pattern keyword =
     Seq (Rep (Atom Dot) 0 (Some 40)) (Seq (lit_i keyword) (Rep (Atom Dot) 0 (Some 40)))"

text \<open>The loop over the keywords; it returns at the first keyword found in the text.\<close>

fun keyword_loop :: "ucd \<Rightarrow> ustring list \<Rightarrow> ustring \<Rightarrow> ustring option" where
  "keyword_loop nd [] text = None"
| "keyword_loop nd (keyword # rest) text =
     (if re_search nd (lit_i keyword) text \<noteq> None then
        (case re_search nd (context_pattern keyword) text of
           Some mm \<Rightarrow> Some (strip (group0 mm))
         | None \<Rightarrow> Some keyword)
      else keyword_loop nd rest text)"

definition extract_availability :: "ucd \<Rightarrow> soup \<Rightarrow> exn + ustring option" where
  "extract_availability nd sp =
     (case sel_availability sp of
        Some el \<Rightarrow> Inr (Some (el_text el))
      | None \<Rightarrow>
          (case re_search nd availability_pattern (text_lines sp) of
             Some m \<Rightarrow>
               (case group m 2 of
                  Some g \<Rightarrow> Inr (Some (strip g))
                | None \<Rightarrow> Inl (attribute_error (ustr ''NoneType'') (ustr ''strip'')))
           | None \<Rightarrow> Inr (keyword_loop nd keyword_list (text_lines sp))))"

text \<open>
  The walk over at most eight following siblings of a heading, collecting their
  non-empty texts.
\<close>

fun sibling_walk :: "element list \<Rightarrow> nat \<Rightarrow> ustring list \<Rightarrow> ustring list" where
  "sibling_walk [] count dets = dets"
| "sibling_walk (sib # rest) count dets =
     (if count < 8
      then sibling_walk rest (count + 1) (if el_text sib \<noteq> [] then dets @ [el_text sib] else dets)
      else dets)"

text \<open>
  The loops of \<open>extract_details\<close> either return a list (\<open>Inl\<close>) or go on with the
  entries collected so far (\<open>Inr\<close>).
\<close>

definition is_list_tag :: "ustring \<Rightarrow> bool" where
  "is_list_tag n = (n = ustr ''ul'' \<or> n = ustr ''ol'')"

fun heading_loop :: "element list list \<Rightarrow> ustring list \<Rightarrow> ustring list + ustring list" where
  "heading_loop [] dets = Inr dets"
| "heading_loop (hdr # rest) dets =
     (let dets1 = (case hdr of
                     [] \<Rightarrow> dets
                   | next_el # others \<Rightarrow>
                       if is_list_tag (el_name next_el) then dets @ el_items next_el else dets);
          returns1 = (case hdr of
                        [] \<Rightarrow> False
                      | next_el # others \<Rightarrow> is_list_tag (el_name next_el) \<and> dets1 \<noteq> [])
      in if returns1 then Inl dets1
         else
           let dets2 = sibling_walk hdr 0 dets1
           in if dets2 \<noteq> [] then Inl dets2 else heading_loop rest dets2)"

fun header_tag_loop ::
  "(ustring \<Rightarrow> element list list) \<Rightarrow> ustring list \<Rightarrow> ustring list \<Rightarrow> ustring list + ustring list"
  where
  "header_tag_loop hs [] dets = Inr dets"
| "header_tag_loop hs (header_tag # rest) dets =
     (case heading_loop (hs header_tag) dets of
        Inl result \<Rightarrow> Inl result
      | Inr dets1 \<Rightarrow> header_tag_loop hs rest dets1)"

fun spec_loop :: "element option list \<Rightarrow> ustring list \<Rightarrow> ustring list + ustring list" where
  "spec_loop [] dets = Inr dets"
| "spec_loop (ul # rest) dets =
     (case ul of
        None \<Rightarrow> spec_loop rest dets
      | Some u \<Rightarrow>
          let dets1 = dets @ el_items u
          in if dets1 \<noteq> [] then Inl dets1 else spec_loop rest dets1)"

text \<open>The last loop: whitespace is collapsed, empty and repeated entries are dropped.\<close>

fun dedup_loop :: "ustring list \<Rightarrow> ustring list \<Rightarrow> ustring list \<Rightarrow> ustring list" where
  "dedup_loop [] seen out = out"
| "dedup_loop (d # ds) seen out =
     (let d2 = join [32] (split_ws d)
      in if d2 \<noteq> [] \<and> d2 \<notin> set seen then dedup_loop ds (d2 # seen) (out @ [d2])
         else dedup_loop ds seen out)"

definition header_tags :: "ustring list" where
  "header_tags = [ustr ''h1'', ustr ''h2'', ustr ''h3'', ustr ''h4'', ustr ''h5'', ustr ''h6'']"

definition extract_details :: "soup \<Rightarrow> ustring list" where
  "extract_details sp =
     (case header_tag_loop (headings sp) header_tags [] of
        Inl result \<Rightarrow> result
      | Inr dets \<Rightarrow>
          (case spec_loop (take 3 (spec_lists sp)) dets of
             Inl result \<Rightarrow> result
           | Inr dets1 \<Rightarrow>
               dedup_loop (dets1 @ filter (\<lambda>t. t \<noteq> []) (take 50 (all_items sp))) [] []))"


section \<open>The state store and the checker\<close>

text \<open>
  The table \<open>page_state\<close> maps a URL to a JSON text and a timestamp. The text column
  is either a text that \<open>json.loads\<close> reads (as a dictionary with the keys of a snapshot,
  as \<open>None\<close>, or as a value of another Python type, given by the name of that type), or
  a text that \<open>json.loads\<close> rejects. What \<open>json.dumps\<close> makes of a snapshot is read
  back as that snapshot. A dictionary is taken with the value types that \<open>check_page\<close>
  gives a snapshot; a key that is missing reads as \<open>None\<close> (as the empty list for the
  details), which is what \<open>dict.get\<close> answers.
\<close>

datatype json_value = Object snapshot | Null | Non_object ustring

datatype json_text = Dumped json_value | Garbage ustring

definition json_dumps :: "snapshot \<Rightarrow> json_text" where
  "json_dumps v = Dumped (Object v)"

text \<open>\<open>json.loads\<close>; \<open>None\<close> is the exception it raises.\<close>

definition json_loads :: "json_text \<Rightarrow> json_value option" where
  "json_loads t = (case t of Dumped v \<Rightarrow> Some v | Garbage g \<Rightarrow> None)"

type_synonym store = "ustring \<Rightarrow> (json_text \<times> ustring) option"

text \<open>\<open>load_state\<close>: Python's \<open>None\<close> is \<open>Null\<close>.\<close>

definition load_state :: "store \<Rightarrow> ustring \<Rightarrow> json_value" where
  "load_state st url =
     (case st url of
        None \<Rightarrow> Null
      | Some row \<Rightarrow> (case json_loads (fst row) of None \<Rightarrow> Null | Some v \<Rightarrow> v))"

text \<open>
  What one call of \<open>check_page\<close> sees of the world: the answer of the network, the
  parser, and the two readings of the clock (\<open>datetime.utcnow().isoformat()\<close>), one for
  the snapshot and one for the row.
\<close>

record env =
  fetch_html :: "ustring \<Rightarrow> exn + ustring"
  make_soup :: "ustring \<Rightarrow> exn + soup"
  utcnow_snapshot :: ustring
  utcnow_row :: ustring

text \<open>The module function \<open>save_state\<close>: the row of the URL is inserted or replaced.\<close>

definition save_state :: "env \<Rightarrow> ustring \<Rightarrow> snapshot \<Rightarrow> store \<Rightarrow> store" where
  "save_state ev url snap st = st (url := Some (json_dumps snap, utcnow_row ev @ ustr ''Z''))"

definition build_snapshot :: "ucd \<Rightarrow> env \<Rightarrow> soup \<Rightarrow> exn + snapshot" where
  "build_snapshot nd ev sp =
     (case extract_price nd sp of
        Inl e \<Rightarrow> Inl e
      | Inr p \<Rightarrow>
          (case extract_availability nd sp of
             Inl e \<Rightarrow> Inl e
           | Inr a \<Rightarrow>
               Inr \<lparr>price = p, availability = a, details = extract_details sp,
                    checked_at = utcnow_snapshot ev @ ustr ''Z''\<rparr>))"

text \<open>
  The old snapshot as \<open>summarize_changes\<close> receives it. A loaded value that is neither
  \<open>None\<close> nor a dictionary has no \<open>get\<close>: the differ raises \<open>AttributeError\<close>.
\<close>

definition prior_snapshot :: "json_value \<Rightarrow> exn + snapshot option" where
  "prior_snapshot v =
     (case v of
        Null \<Rightarrow> Inr None
      | Object s \<Rightarrow> Inr (Some s)
      | Non_object type_name \<Rightarrow> Inl (attribute_error type_name (ustr ''get'')))"

text \<open>
  \<open>check_page(url, save_state=True)\<close>. Inside the function the name \<open>save_state\<close> is the
  boolean parameter, which hides the module function of that name. When the parameter is
  true, \<open>save_state(url, new_snapshot)\<close> calls the boolean: a \<open>TypeError\<close> is raised after
  the comparison, nothing is written and no report is returned.
\<close>

definition type_error :: exn where
  "type_error = Error ([39] @ ustr ''bool'' @ [39] @ ustr '' object is not callable'')"

definition check_page ::
  "ucd \<Rightarrow> env \<Rightarrow> ustring \<Rightarrow> bool \<Rightarrow> store \<Rightarrow> (exn + report) \<times> store" where
  "check_page nd ev url save_state_flag st =
     (case fetch_html ev url of
        Inl e \<Rightarrow> (Inl e, st)
      | Inr html \<Rightarrow>
          (case make_soup ev html of
             Inl e \<Rightarrow> (Inl e, st)
           | Inr sp \<Rightarrow>
               (case build_snapshot nd ev sp of
                  Inl e \<Rightarrow> (Inl e, st)
                | Inr new_snapshot \<Rightarrow>
                    (case prior_snapshot (load_state st url) of
                       Inl e \<Rightarrow> (Inl e, st)
                     | Inr old_snapshot \<Rightarrow>
                         let summary = summarize_changes nd old_snapshot new_snapshot
                         in if save_state_flag then (Inl type_error, st)
                            else (Inr summary, st)))))"


section \<open>The command line\<close>

record args =
  urls :: "ustring list"
  no_save :: bool
  json :: bool

datatype entry = Report report | ErrorRecord ustring

datatype log_line = Info ustring | Err ustring

definition summary_lines :: "report \<Rightarrow> log_line list" where
  "summary_lines res =
     (if changed res
      then Info ([90, 109, 283, 110, 121] @ ustr '' detekov'' @ [225] @ ustr ''ny:'') #
           map (\<lambda>c. Info (ustr '' - '' @ c)) (changes res)
      else [Info ([381, 225, 100, 110, 233, 32, 122, 109, 283, 110, 121] @
                  ustr '' detekov'' @ [225] @ ustr ''ny.'')]) @
     [Info []]"

definition error_line :: "ustring \<Rightarrow> exn \<Rightarrow> log_line" where
  "error_line url e =
     Err (ustr ''Chyba p'' @ [345, 105] @ ustr '' zpracov'' @ [225] @ ustr ''n'' @ [237, 32] @
          url @ ustr '': '' @ message e)"

type_synonym run_state = "(ustring \<times> entry) list \<times> log_line list \<times> store"

text \<open>One iteration of the loop over \<open>args.urls\<close>, with its \<open>try\<close> and \<open>except\<close>.\<close>

definition check_one :: "ucd \<Rightarrow> env \<Rightarrow> args \<Rightarrow> ustring \<Rightarrow> run_state \<Rightarrow> run_state" where
  "check_one nd ev a url rs =
     (case rs of (results, lg, st) \<Rightarrow>
        let lg1 = lg @ [Info (ustr ''Kontrola: '' @ url)]
        in (case check_page nd ev url (\<not> no_save a) st of
              (Inl e, st1) \<Rightarrow>
                (AList.update url (ErrorRecord (message e)) results,
                 lg1 @ [error_line url e], st1)
            | (Inr res, st1) \<Rightarrow>
                (AList.update url (Report res) results,
                 if json a then lg1 else lg1 @ summary_lines res, st1)))"

text \<open>The loop; the \<open>i\<close>-th iteration sees the world \<open>world i\<close>.\<close>

fun check_all ::
  "ucd \<Rightarrow> (nat \<Rightarrow> env) \<Rightarrow> args \<Rightarrow> nat \<Rightarrow> ustring list \<Rightarrow> run_state \<Rightarrow> run_state" where
  "check_all nd world a i [] rs = rs"
| "check_all nd world a i (url # rest) rs =
     check_all nd world a (i + 1) rest (check_one nd (world i) a url rs)"

definition main :: "ucd \<Rightarrow> (nat \<Rightarrow> env) \<Rightarrow> args \<Rightarrow> store \<Rightarrow> run_state" where
  "main nd world a st = check_all nd world a 0 (urls a) ([], [], st)"




text \<open>A pattern needs a digit when each of its matches starts in a text with a decimal digit.\<close>

definition needs_digit :: "ucd \<Rightarrow> re \<Rightarrow> bool" where
  "needs_digit nd r = (\<forall>s s'. s' \<in> set (ms nd r s) \<longrightarrow> (\<exists>c\<in>set (fst s). is_digit nd c))"


section \<open>Example inputs\<close>

text \<open>
  A page with a price element that is a \<open>meta\<close> tag without \<open>content\<close>, an availability
  element reading Skladem and two list items; the world in which every URL answers with
  that page; and a store that already holds the snapshot of that page.
\<close>

definition no_digits :: ucd where
  "no_digits = (\<lambda>c. None)"

definition example_soup :: soup where
  "example_soup =
     \<lparr>sel_price = Some \<lparr>el_name = ustr ''meta'', el_content = None, el_text = [], el_items = []\<rparr>,
      text_spaces = ustr ''Skladem A B'',
      sel_price_class = None,
      sel_availability =
        Some \<lparr>el_name = ustr ''span'', el_content = None, el_text = ustr ''Skladem'',
              el_items = []\<rparr>,
      text_lines = ustr ''Skladem'' @ [10] @ ustr ''A'' @ [10] @ ustr ''B'',
      headings = (\<lambda>t. []),
      spec_lists = [],
      all_items = [ustr ''A'', ustr ''B'']\<rparr>"

definition example_env :: "ustring \<Rightarrow> env" where
  "example_env now =
     \<lparr>fetch_html = (\<lambda>u. Inr (ustr ''<html>'')),
      make_soup = (\<lambda>h. Inr example_soup),
      utcnow_snapshot = now,
      utcnow_row = now\<rparr>"

definition example_snapshot :: "ustring \<Rightarrow> snapshot" where
  "example_snapshot now =
     \<lparr>price = None, availability = Some (ustr ''Skladem''),
      details = [ustr ''A'', ustr ''B''], checked_at = now @ ustr ''Z''\<rparr>"

definition example_url :: ustring where
  "example_url = ustr ''https://example.com/product/123''"

definition example_store :: store where
  "example_store =
     (\<lambda>u. None)
       (example_url := Some (Dumped (Object (example_snapshot (ustr ''t0''))), ustr ''t0Z''))"


text \<open>A world for a run over three URLs in which the second request fails.\<close>

definition failing_env :: env where
  "failing_env = (example_env (ustr ''t2'')) \<lparr>fetch_html := (\<lambda>u. Inl (Error (ustr ''timeout'')))\<rparr>"

definition example_world :: "nat \<Rightarrow> env" where
  "example_world i = (if i = 1 then failing_env else example_env (ustr ''t1''))"


text \<open>
  A page with the heading Podrobnosti followed by a list whose items read A, A and
  nothing, as in
  \<^verbatim>\<open><h2>Podrobnosti</h2><ul><li>A</li><li>A</li><li></li></ul>\<close>;
  and a page with such a heading followed by two paragraphs that both read a, two
  spaces, b.
\<close>

definition heading_list_soup :: soup where
  "heading_list_soup =
     \<lparr>sel_price = None, text_spaces = ustr ''Podrobnosti A A'', sel_price_class = None,
      sel_availability = None, text_lines = ustr ''Podrobnosti'' @ [10] @ ustr ''A'' @ [10] @ ustr ''A'',
      headings = (\<lambda>t. if t = ustr ''h2''
                       then [[\<lparr>el_name = ustr ''ul'', el_content = None, el_text = ustr ''A A'',
                                el_items = [ustr ''A'', ustr ''A'', []]\<rparr>]]
                       else []),
      spec_lists = [],
      all_items = [ustr ''A'', ustr ''A'', []]\<rparr>"

definition sibling_soup :: soup where
  "sibling_soup =
     \<lparr>sel_price = None, text_spaces = [], sel_price_class = None,
      sel_availability = None, text_lines = [],
      headings = (\<lambda>t. if t = ustr ''h3''
                       then [[\<lparr>el_name = ustr ''p'', el_content = None, el_text = ustr ''a  b'',
                                el_items = []\<rparr>,
                              \<lparr>el_name = ustr ''p'', el_content = None, el_text = ustr ''a  b'',
                                el_items = []\<rparr>]]
                       else []),
      spec_lists = [],
      all_items = []\<rparr>"


section \<open>Evaluation\<close>

text \<open>Equations for evaluating the matcher and the floats on given inputs.\<close>

lemma rep_unfold:
  "rep f lo hi s =
     (if hi = 0 then (if lo = 0 then [s] else [])
      else concat (map (rep f (lo - 1) (hi - 1)) (f s)) @ (if lo = 0 then [s] else []))"
  by (cases hi) simp_all

lemmas re_ev = price_pattern_def loose_number_pattern_def grouped_number_def seqs_def opt_def
  star_def plus_re_def lit_def kc_def czk_def ustr_def rep_unfold is_digit_def digit_value_def
  py_isspace_def

lemmas float_ev = ustr_def py_float_def to_ascii_def strip_ascii_def is_aspace_def
  split_sign_def lower_ascii_def parse_decimal_def is_adigit_def nat_of_digits_def
  round_binary64_def ilog2_def bits.simps ge_pow2_def round_half_even_def ratio_of_def
  signed_def sign_str_def str_nat.simps Let_def


section \<open>Properties of the differ\<close>

lemma not_in_self: "not_in xs xs = []"
  by (simp add: not_in_def)
lemma compare_price_same:
  "or_empty (price a) = or_empty (price b) \<Longrightarrow> compare_price nd a b acc = acc"
  by (simp add: compare_price_def Let_def)
lemma compare_availability_same:
  "or_empty (availability a) = or_empty (availability b) \<Longrightarrow> compare_availability a b acc = acc"
  by (simp add: compare_availability_def)
lemma compare_details_same:
  "details a = details b \<Longrightarrow> compare_details a b acc = acc"
  by (simp add: compare_details_def Let_def not_in_self)
lemma summarize_same_fields:
  "price a = price b \<Longrightarrow> availability a = availability b \<Longrightarrow> details a = details b \<Longrightarrow>
   summarize_changes nd (Some a) b = \<lparr>changed = False, changes = [], old = Some a, new = b\<rparr>"
  by (simp add: summarize_changes_def compare_price_same compare_availability_same
      compare_details_same)


text \<open>
  C6. Compared against an absent prior snapshot, the differ reports a change with
  exactly one entry, the message that no prior record existed, whatever the fields of
  the new snapshot are.
\<close>

theorem first_run_single_entry:
  "changed (summarize_changes nd None new_snapshot) = True \<and>
   changes (summarize_changes nd None new_snapshot) = [no_prior_message] \<and>
   length (changes (summarize_changes nd None new_snapshot)) = 1 \<and>
   old (summarize_changes nd None new_snapshot) = None \<and>
   new (summarize_changes nd None new_snapshot) = new_snapshot"
  by (simp add: summarize_changes_def)





text \<open>
  C7. The details are compared by exact equality of the entries: the added entries are
  those of the new list that are not in the old one, in the order of the new list, the
  removed entries those of the old list that are not in the new one, in the order of the
  old list; each non-empty difference gives one message with at most its first ten
  entries joined by "; ". For the old list A, B and the new list B, C the added entries
  are C and the removed entries are A.
\<close>

theorem details_diff:
  "fst (compare_details a b acc) =
     (if [d\<leftarrow>details b. d \<notin> set (details a)] = [] \<and> [d\<leftarrow>details a. d \<notin> set (details b)] = []
      then fst acc else True) \<and>
   snd (compare_details a b acc) =
     snd acc @
     (if [d\<leftarrow>details b. d \<notin> set (details a)] = [] then []
      else [added_prefix @ join (ustr ''; '') (take 10 [d\<leftarrow>details b. d \<notin> set (details a)])]) @
     (if [d\<leftarrow>details a. d \<notin> set (details b)] = [] then []
      else [removed_prefix @ join (ustr ''; '') (take 10 [d\<leftarrow>details a. d \<notin> set (details b)])]) \<and>
   not_in [ustr ''B'', ustr ''C''] [ustr ''A'', ustr ''B''] = [ustr ''C''] \<and>
   not_in [ustr ''A'', ustr ''B''] [ustr ''B'', ustr ''C''] = [ustr ''A''] \<and>
   changes (summarize_changes nd
       (Some \<lparr>price = p, availability = v, details = [ustr ''A'', ustr ''B''], checked_at = t1\<rparr>)
       \<lparr>price = p, availability = v, details = [ustr ''B'', ustr ''C''], checked_at = t2\<rparr>) =
     [added_prefix @ ustr ''C'', removed_prefix @ ustr ''A'']"
  by (simp add: compare_details_def not_in_def Let_def ustr_def summarize_changes_def
      compare_price_same compare_availability_same)


subsection \<open>The percentage of a price change\<close>

















section \<open>Properties of the matcher\<close>

lemma in_ms_Seq: "s' \<in> set (ms nd (Seq a b) s) \<longleftrightarrow> (\<exists>m \<in> set (ms nd a s). s' \<in> set (ms nd b m))"
  by auto

lemma in_rep_0: "s' \<in> set (rep f lo 0 s) \<longleftrightarrow> lo = 0 \<and> s' = s"
  by auto

lemma in_rep_Suc:
  "s' \<in> set (rep f lo (Suc hi) s) \<longleftrightarrow>
     (\<exists>m \<in> set (f s). s' \<in> set (rep f (lo - 1) hi m)) \<or> (lo = 0 \<and> s' = s)"
  by auto

lemma rep_invariant:
  assumes step: "\<And>s s'. s' \<in> set (f s) \<Longrightarrow> P s \<Longrightarrow> P s'"
  shows "s' \<in> set (rep f lo hi s) \<Longrightarrow> P s \<Longrightarrow> P s'"
proof (induction hi arbitrary: lo s)
  case 0
  then show ?case by (simp split: if_splits)
next
  case (Suc hi)
  from Suc.prems(1) show ?case
    unfolding in_rep_Suc using Suc.IH Suc.prems(2) step by blast
qed

lemma ms_suffix: "s' \<in> set (ms nd r s) \<Longrightarrow> suffix (fst s') (fst s)"
proof (induction r arbitrary: s s')
  case Eps
  then show ?case by simp
next
  case (Atom k)
  then obtain x where x: "x # fst s' = fst s" by (auto split: list.splits if_splits)
  have "suffix (fst s') (x # fst s')" by (simp add: suffix_Cons)
  then show ?case by (simp only: x)
next
  case (Seq a b)
  from Seq.prems obtain m where m: "m \<in> set (ms nd a s)" and s': "s' \<in> set (ms nd b m)"
    unfolding in_ms_Seq by blast
  show ?case
    by (rule suffix_order.trans [OF Seq.IH(2) [OF s'] Seq.IH(1) [OF m]])
next
  case (Alt a b)
  from Alt.prems have "s' \<in> set (ms nd a s) \<or> s' \<in> set (ms nd b s)" by simp
  with Alt.IH show ?case by blast
next
  case (Rep r lo hi)
  have step: "\<And>x y. y \<in> set (ms nd r x) \<Longrightarrow> suffix (fst x) (fst s) \<Longrightarrow> suffix (fst y) (fst s)"
    by (rule suffix_order.trans [OF Rep.IH])
  from Rep.prems
  have "s' \<in> set (rep (ms nd r) lo (case hi of None \<Rightarrow> length (fst s) | Some h \<Rightarrow> h) s)"
    by simp
  from rep_invariant [where P = "\<lambda>x. suffix (fst x) (fst s)", OF step this]
  show ?case by simp
next
  case (Grp n r)
  from Grp.prems obtain m where "m \<in> set (ms nd r s)" and "fst s' = fst m" by auto
  with Grp.IH show ?case by simp
qed

lemma ms_keeps_groups:
  "s' \<in> set (ms nd r s) \<Longrightarrow> k \<in> fst ` set (snd s) \<Longrightarrow> k \<in> fst ` set (snd s')"
proof (induction r arbitrary: s s')
  case Eps
  then show ?case by simp
next
  case (Atom c)
  then show ?case by (auto split: list.splits if_splits)
next
  case (Seq a b)
  from Seq.prems(1) obtain m where m: "m \<in> set (ms nd a s)" and s': "s' \<in> set (ms nd b m)"
    unfolding in_ms_Seq by blast
  from m Seq.prems(2) have "k \<in> fst ` set (snd m)" by (rule Seq.IH)
  with s' show ?case by (rule Seq.IH)
next
  case (Alt a b)
  from Alt.prems(1) have "s' \<in> set (ms nd a s) \<or> s' \<in> set (ms nd b s)" by simp
  with Alt.IH Alt.prems(2) show ?case by blast
next
  case (Rep r lo hi)
  have step: "\<And>x y. y \<in> set (ms nd r x) \<Longrightarrow> k \<in> fst ` set (snd x) \<Longrightarrow> k \<in> fst ` set (snd y)"
    by (rule Rep.IH)
  from Rep.prems(1)
  have "s' \<in> set (rep (ms nd r) lo (case hi of None \<Rightarrow> length (fst s) | Some h \<Rightarrow> h) s)"
    by simp
  from rep_invariant [where P = "\<lambda>x. k \<in> fst ` set (snd x)", OF step this Rep.prems(2)]
  show ?case .
next
  case (Grp n r)
  from Grp.prems obtain m where "m \<in> set (ms nd r s)" and "snd s' = (n, take (length (fst s) - length (fst m)) (fst s)) # snd m"
    by auto
  moreover from this(1) Grp.prems(2) have "k \<in> fst ` set (snd m)" by (rule Grp.IH)
  ultimately show ?case by simp
qed

lemma ms_Grp_sets: "s' \<in> set (ms nd (Grp n r) s) \<Longrightarrow> n \<in> fst ` set (snd s')"
  by auto

lemma re_search_Some:
  "re_search nd r t = Some m \<Longrightarrow>
   \<exists>s s'. suffix s t \<and> s' \<in> set (ms nd r (s, [])) \<and> snd m = snd s' \<and>
          fst m = take (length s - length (fst s')) s"
proof (induction t)
  case Nil
  then show ?case by (auto split: list.splits)
next
  case (Cons c cs)
  show ?case
  proof (cases "ms nd r (c # cs, [])")
    case Nil
    with Cons.prems have "re_search nd r cs = Some m" by simp
    from Cons.IH [OF this] show ?thesis by (blast intro: suffix_ConsI)
  next
    case (Cons x xs)
    with Cons.prems have "snd m = snd x" "fst m = take (length (c # cs) - length (fst x)) (c # cs)"
      by auto
    moreover have "x \<in> set (ms nd r (c # cs, []))" using Cons by simp
    ultimately show ?thesis by (metis suffix_order.refl)
  qed
qed

lemma re_search_None:
  "re_search nd r t = None \<longleftrightarrow> (\<forall>s. suffix s t \<longrightarrow> ms nd r (s, []) = [])"
proof (induction t)
  case Nil
  then show ?case by (auto split: list.splits)
next
  case (Cons c cs)
  then show ?case by (auto split: list.splits simp: suffix_Cons)
qed

lemma Seq_Grp_sets:
  assumes "s' \<in> set (ms nd (Seq (Grp n r) rest) s)"
  shows "n \<in> fst ` set (snd s')"
proof -
  from assms obtain m where m: "m \<in> set (ms nd (Grp n r) s)" and s': "s' \<in> set (ms nd rest m)"
    unfolding in_ms_Seq by blast
  from m have "n \<in> fst ` set (snd m)" by (rule ms_Grp_sets)
  with s' show ?thesis by (rule ms_keeps_groups)
qed

lemma Seq_later_sets:
  assumes "s' \<in> set (ms nd (Seq a rest) s)"
    and "\<And>m. s' \<in> set (ms nd rest m) \<Longrightarrow> n \<in> fst ` set (snd s')"
  shows "n \<in> fst ` set (snd s')"
  using assms unfolding in_ms_Seq by blast

lemma price_pattern_group2:
  "s' \<in> set (ms nd price_pattern s) \<Longrightarrow> 2 \<in> fst ` set (snd s')"
  unfolding price_pattern_def seqs_def foldr.simps o_apply
  by (erule Seq_later_sets, erule Seq_later_sets, erule Seq_Grp_sets)

lemma loose_number_group1:
  "s' \<in> set (ms nd loose_number_pattern s) \<Longrightarrow> 1 \<in> fst ` set (snd s')"
  unfolding loose_number_pattern_def by (rule ms_Grp_sets)

lemma availability_group2:
  "s' \<in> set (ms nd availability_pattern s) \<Longrightarrow> 2 \<in> fst ` set (snd s')"
proof -
  assume "s' \<in> set (ms nd availability_pattern s)"
  then obtain m where "m \<in> set (ms nd (seqs [lit_i (ustr ''Dostupnost''), star (Atom Space), opt (Atom (OneOf [58, 45])),
                  star (Atom Space), Grp 2 (plus_re (Atom (NoneOf [10, 13])))]) s)" and s': "snd s' = (1, take (length (fst s) - length (fst m)) (fst s)) # snd m"
    unfolding availability_pattern_def by auto
  then have "2 \<in> fst ` set (snd m)"
    unfolding seqs_def foldr.simps o_apply
    by - (erule Seq_later_sets, erule Seq_later_sets, erule Seq_later_sets, erule Seq_later_sets,
        erule Seq_Grp_sets)
  then show ?thesis by (simp add: s')
qed

lemma group_defined: "n \<in> fst ` set (snd m) \<Longrightarrow> \<exists>g. group m n = Some g"
  by (cases "group m n") (auto simp: group_def map_of_eq_None_iff)

lemma canonical_number_total: "\<exists>r. canonical_number nd (Some n) = Inr (Some r)"
  by (simp add: canonical_number_def split: option.splits)

lemma normalize_price_total: "\<exists>r. normalize_price nd text = Inr r"
proof (cases "text")
  case None
  then show ?thesis by (simp add: normalize_price_def)
next
  case tx: (Some tx)
  show ?thesis
  proof (cases "re_search nd price_pattern (strip tx)")
    case n1: None
    show ?thesis
    proof (cases "re_search nd loose_number_pattern (strip tx)")
      case None
      with n1 tx show ?thesis by (simp add: normalize_price_def)
    next
      case (Some m2)
      from re_search_Some [OF this] loose_number_group1 group_defined
      obtain g where "group m2 1 = Some g" by metis
      with n1 Some tx canonical_number_total [of nd g] show ?thesis
        by (auto simp: normalize_price_def)
    qed
  next
    case (Some m)
    from re_search_Some [OF this] price_pattern_group2 group_defined
    obtain g where "group m 2 = Some g" by metis
    with Some tx canonical_number_total [of nd g] show ?thesis
      by (auto simp: normalize_price_def)
  qed
qed

lemma extract_price_total: "\<exists>r. extract_price nd sp = Inr r"
  using normalize_price_total by (simp add: extract_price_def split: option.splits)

lemma extract_availability_total: "\<exists>r. extract_availability nd sp = Inr r"
proof (cases "re_search nd availability_pattern (text_lines sp)")
  case None
  then show ?thesis by (simp add: extract_availability_def split: option.splits)
next
  case (Some m)
  from re_search_Some [OF this] availability_group2 group_defined
  obtain g where "group m 2 = Some g" by metis
  with Some show ?thesis by (simp add: extract_availability_def split: option.splits)
qed

lemma build_snapshot_total: "\<exists>snap. build_snapshot nd ev sp = Inr snap"
  using extract_price_total [of nd sp] extract_availability_total [of nd sp]
  by (auto simp: build_snapshot_def)

section \<open>Properties of the normalizer\<close>

lemma needs_digit_Atom: "needs_digit nd (Atom Digit)"
  by (auto simp: needs_digit_def split: list.splits if_splits)

lemma needs_digit_Seq1: "needs_digit nd a \<Longrightarrow> needs_digit nd (Seq a b)"
  unfolding needs_digit_def in_ms_Seq by blast

lemma needs_digit_Seq2:
  assumes "needs_digit nd b"
  shows "needs_digit nd (Seq a b)"
  unfolding needs_digit_def
proof (intro allI impI)
  fix s s'
  assume "s' \<in> set (ms nd (Seq a b) s)"
  then obtain m where m: "m \<in> set (ms nd a s)" and s': "s' \<in> set (ms nd b m)"
    unfolding in_ms_Seq by blast
  from assms s' obtain c where "c \<in> set (fst m)" and "is_digit nd c"
    unfolding needs_digit_def by blast
  moreover from ms_suffix [OF m] have "set (fst m) \<subseteq> set (fst s)" by (rule set_mono_suffix)
  ultimately show "\<exists>c\<in>set (fst s). is_digit nd c" by blast
qed

lemma needs_digit_Grp:
  assumes "needs_digit nd r"
  shows "needs_digit nd (Grp n r)"
  unfolding needs_digit_def
proof (intro allI impI)
  fix s s'
  assume "s' \<in> set (ms nd (Grp n r) s)"
  then obtain m where "m \<in> set (ms nd r s)" by auto
  with assms show "\<exists>c\<in>set (fst s). is_digit nd c"
    unfolding needs_digit_def by blast
qed

lemma needs_digit_Rep:
  assumes "needs_digit nd r" and "0 < lo"
  shows "needs_digit nd (Rep r lo hi)"
  unfolding needs_digit_def
proof (intro allI impI)
  fix s s'
  assume "s' \<in> set (ms nd (Rep r lo hi) s)"
  then have "s' \<in> set (rep (ms nd r) lo (case hi of None \<Rightarrow> length (fst s) | Some h \<Rightarrow> h) s)"
    by simp
  with assms(2) obtain m where "m \<in> set (ms nd r s)"
    by (cases "case hi of None \<Rightarrow> length (fst s) | Some h \<Rightarrow> h") auto
  with assms(1) show "\<exists>c\<in>set (fst s). is_digit nd c"
    unfolding needs_digit_def by blast
qed

lemma price_pattern_needs_digit: "needs_digit nd price_pattern"
  unfolding price_pattern_def seqs_def grouped_number_def foldr.simps o_apply
  by (rule needs_digit_Seq2, rule needs_digit_Seq2, rule needs_digit_Seq1, rule needs_digit_Grp,
      rule needs_digit_Seq2, rule needs_digit_Seq1, rule needs_digit_Rep, rule needs_digit_Atom,
      simp)

lemma loose_number_needs_digit: "needs_digit nd loose_number_pattern"
  unfolding loose_number_pattern_def seqs_def foldr.simps o_apply
  by (rule needs_digit_Grp, rule needs_digit_Seq2, rule needs_digit_Seq1, rule needs_digit_Atom)

lemma no_digit_no_match:
  assumes "needs_digit nd r" and "\<forall>c\<in>set t. \<not> is_digit nd c"
  shows "re_search nd r t = None"
  unfolding re_search_None
proof (intro allI impI)
  fix s
  assume s: "suffix s t"
  show "ms nd r (s, []) = []"
  proof (rule ccontr)
    assume "ms nd r (s, []) \<noteq> []"
    then obtain x where "x \<in> set (ms nd r (s, []))" by (cases "ms nd r (s, [])") auto
    with assms(1) obtain c where "c \<in> set s" and "is_digit nd c"
      unfolding needs_digit_def by fastforce
    with set_mono_suffix [OF s] assms(2) show False by blast
  qed
qed

lemma set_strip: "set (strip s) \<subseteq> set s"
  by (auto simp: strip_def dest!: set_dropWhileD)

lemma normalize_price_passthrough:
  assumes "t \<noteq> []" and "\<forall>c\<in>set t. \<not> is_digit nd c"
  shows "normalize_price nd (Some t) = Inr (Some (strip t))"
proof -
  from assms(2) set_strip [of t] have "\<forall>c\<in>set (strip t). \<not> is_digit nd c" by blast
  then have "re_search nd price_pattern (strip t) = None"
    and "re_search nd loose_number_pattern (strip t) = None"
    by (simp_all add: no_digit_no_match price_pattern_needs_digit loose_number_needs_digit)
  with assms(1) show ?thesis by (simp add: normalize_price_def)
qed

lemma price_vector_search:
  "re_search nd price_pattern (ustr ''1 234,50 K'' @ [269]) =
     Some (ustr ''1 234,50 K'' @ [269], [(3, kc), (2, ustr ''1 234,50'')])"
  by (simp add: re_ev)

lemma price_vector_float:
  "py_float nd (ustr ''1234.50'') = Some (Fin False 5429388417957888 (- 42))"
  by (simp add: float_ev)

lemma price_vector_format:
  "format_2f False (Fin False 5429388417957888 (- 42)) = ustr ''1234.50''"
  by (simp add: float_ev)

lemma price_vector:
  "normalize_price nd (Some (ustr ''1 234,50 K'' @ [269])) = Inr (Some (ustr ''1234.50''))"
proof -
  have s: "strip (ustr ''1 234,50 K'' @ [269]) = ustr ''1 234,50 K'' @ [269]"
    by (simp add: strip_def ustr_def py_isspace_def)
  have n: "num_norm (ustr ''1 234,50'') = ustr ''1234.50''"
    by (simp add: num_norm_def replace_char_def ustr_def)
  have "canonical_number nd (Some (ustr ''1 234,50'')) = Inr (Some (ustr ''1234.50''))"
    by (simp add: canonical_number_def n price_vector_float price_vector_format
        del: format_2f.simps)
  then show ?thesis
    by (simp add: normalize_price_def s price_vector_search group_def)
qed

lemma call_us: "normalize_price nd (Some (ustr ''call us'')) = Inr (Some (ustr ''call us''))"
proof -
  have "normalize_price nd (Some (ustr ''call us'')) = Inr (Some (strip (ustr ''call us'')))"
    by (rule normalize_price_passthrough) (simp_all add: ustr_def is_digit_def digit_value_def)
  then show ?thesis by (simp add: strip_def ustr_def py_isspace_def)
qed

lemma float_dashes: "py_float nd (num_norm (ustr ''--'')) = None"
  by (simp add: num_norm_def replace_char_def float_ev)

text \<open>
  C4. \<open>normalize_price\<close> returns "1234.50" for "1 234,50 K\u010d", \<open>None\<close> for \<open>None\<close> and
  for the empty string, and "call us" for "call us"; it returns for every input, never
  raising; a text without a decimal digit is returned stripped and otherwise unchanged;
  and when \<open>float\<close> does not read the normalized candidate, that normalized string is
  returned.
\<close>

theorem normalize_price_vectors:
  "normalize_price nd (Some (ustr ''1 234,50 K'' @ [269])) = Inr (Some (ustr ''1234.50'')) \<and>
   normalize_price nd None = Inr None \<and>
   normalize_price nd (Some []) = Inr None \<and>
   normalize_price nd (Some (ustr ''call us'')) = Inr (Some (ustr ''call us'')) \<and>
   (\<exists>r. normalize_price nd v = Inr r) \<and>
   (t \<noteq> [] \<and> (\<forall>c\<in>set t. \<not> is_digit nd c) \<longrightarrow>
      normalize_price nd (Some t) = Inr (Some (strip t))) \<and>
   (py_float nd (num_norm num) = None \<longrightarrow>
      canonical_number nd (Some num) = Inr (Some (num_norm num)))"
  using price_vector [of nd] call_us [of nd] normalize_price_total [of nd v]
    normalize_price_passthrough [of t nd]
  by (simp add: normalize_price_def canonical_number_def)

theorem normalize_price_vectors_witness:
  "ustr ''call us'' \<noteq> [] \<and> list_all (\<lambda>c. \<not> is_digit no_digits c) (ustr ''call us'') \<and>
   normalize_price no_digits (Some (ustr ''call us'')) = Inr (Some (strip (ustr ''call us''))) \<and>
   py_float no_digits (num_norm (ustr ''--'')) = None \<and>
   canonical_number no_digits (Some (ustr ''--'')) = Inr (Some (num_norm (ustr ''--'')))"
proof -
  have a: "ustr ''call us'' \<noteq> [] \<and> (\<forall>c\<in>set (ustr ''call us''). \<not> is_digit no_digits c)"
    by (simp add: ustr_def is_digit_def digit_value_def no_digits_def)
  have b: "py_float no_digits (num_norm (ustr ''--'')) = None" by (rule float_dashes)
  from normalize_price_vectors [of no_digits None "ustr ''call us''" "ustr ''--''"] a b
  have "normalize_price no_digits (Some (ustr ''call us'')) = Inr (Some (strip (ustr ''call us'')))"
    and "canonical_number no_digits (Some (ustr ''--'')) = Inr (Some (num_norm (ustr ''--'')))"
    by blast+
  with a b show ?thesis unfolding list_all_iff by blast
qed


section \<open>Properties of the details extractor\<close>

lemma dedup_loop_distinct:
  "distinct out \<Longrightarrow> set out \<subseteq> set seen \<Longrightarrow> distinct (dedup_loop ds seen out)"
proof (induction ds arbitrary: seen out)
  case Nil
  then show ?case by simp
next
  case (Cons d ds)
  show ?case
  proof (cases "join [32] (split_ws d) \<noteq> [] \<and> join [32] (split_ws d) \<notin> set seen")
    case True
    with Cons.prems have "distinct (out @ [join [32] (split_ws d)])"
      and "set (out @ [join [32] (split_ws d)]) \<subseteq> set (join [32] (split_ws d) # seen)"
      by auto
    from Cons.IH [OF this] True show ?thesis by (simp add: Let_def)
  next
    case False
    with Cons.IH [OF Cons.prems] show ?thesis by (auto simp: Let_def)
  qed
qed

lemma dedup_loop_no_empty:
  "[] \<notin> set out \<Longrightarrow> [] \<notin> set (dedup_loop ds seen out)"
  by (induction ds arbitrary: seen out) (auto simp: Let_def)

lemma fallback_details:
  assumes "\<forall>t. headings sp t = []" and "spec_lists sp = []"
  shows "extract_details sp = dedup_loop (filter (\<lambda>t. t \<noteq> []) (take 50 (all_items sp))) [] [] \<and>
         distinct (extract_details sp) \<and> [] \<notin> set (extract_details sp)"
proof -
  have "header_tag_loop (headings sp) hs [] = Inr []" for hs
    by (induction hs) (simp_all add: assms(1))
  then have "extract_details sp = dedup_loop (filter (\<lambda>t. t \<noteq> []) (take 50 (all_items sp))) [] []"
    by (simp add: extract_details_def assms(2))
  then show ?thesis by (simp add: dedup_loop_distinct dedup_loop_no_empty)
qed

text \<open>
  C2. The lists returned from the heading steps are returned as collected, without the
  last loop: for the heading followed by the list A, A, empty item, the result holds A
  twice and an empty entry; for the heading followed by two equal paragraphs, the result
  holds the paragraph twice, with its inner spaces. Only the list of the last step is
  free of empty and repeated entries (\<open>fallback_details\<close>).
\<close>

theorem extract_details_early_return:
  "extract_details heading_list_soup = [ustr ''A'', ustr ''A'', []] \<and>
   \<not> distinct (extract_details heading_list_soup) \<and>
   [] \<in> set (extract_details heading_list_soup) \<and>
   extract_details sibling_soup = [ustr ''a  b'', ustr ''a  b'']"
  by (simp add: extract_details_def heading_list_soup_def sibling_soup_def header_tags_def
      is_list_tag_def ustr_def)


section \<open>Properties of the checker\<close>

lemma check_page_fetch_error:
  "fetch_html ev url = Inl e \<Longrightarrow> check_page nd ev url flag st = (Inl e, st)"
  by (simp add: check_page_def)

lemma check_page_make_soup_error:
  "fetch_html ev url = Inr html \<Longrightarrow> make_soup ev html = Inl e \<Longrightarrow>
   check_page nd ev url flag st = (Inl e, st)"
  by (simp add: check_page_def)

lemma check_page_never_writes: "snd (check_page nd ev url flag st) = st"
  by (simp add: check_page_def Let_def split: sum.splits)

lemma check_page_persist_raises:
  assumes "fetch_html ev url = Inr html" and "make_soup ev html = Inr sp"
  shows "\<exists>e. check_page nd ev url True st = (Inl e, st)"
proof -
  obtain snap where "build_snapshot nd ev sp = Inr snap"
    using build_snapshot_total by blast
  with assms show ?thesis
    by (cases "prior_snapshot (load_state st url)") (simp_all add: check_page_def Let_def)
qed

lemma check_page_no_save:
  assumes "fetch_html ev url = Inr html" and "make_soup ev html = Inr sp"
    and "build_snapshot nd ev sp = Inr snap" and "prior_snapshot (load_state st url) = Inr prior"
  shows "check_page nd ev url False st = (Inr (summarize_changes nd prior snap), st)"
  using assms by (simp add: check_page_def Let_def)

lemma check_page_save:
  assumes "fetch_html ev url = Inr html" and "make_soup ev html = Inr sp"
    and "build_snapshot nd ev sp = Inr snap" and "prior_snapshot (load_state st url) = Inr prior"
  shows "check_page nd ev url True st = (Inl type_error, st)"
  using assms by (simp add: check_page_def Let_def)

lemma example_build_snapshot:
  "build_snapshot no_digits (example_env now) example_soup = Inr (example_snapshot now)"
  by (simp add: build_snapshot_def extract_price_def extract_availability_def
      extract_details_def example_soup_def example_env_def example_snapshot_def
      normalize_price_def header_tags_def split_ws_def py_isspace_def ustr_def)

lemma example_fetch:
  "fetch_html (example_env now) url = Inr (ustr ''<html>'')"
  "make_soup (example_env now) html = Inr example_soup"
  by (simp_all add: example_env_def)

lemma example_prior:
  "prior_snapshot (load_state example_store example_url) = Inr (Some (example_snapshot (ustr ''t0'')))"
  "prior_snapshot (load_state (\<lambda>u. None) url) = Inr None"
  by (simp_all add: prior_snapshot_def load_state_def example_store_def json_loads_def)

text \<open>
  C1. With the persist flag set, \<open>check_page\<close> on a page that is retrieved and parsed
  raises \<open>TypeError\<close> after the comparison: no report is returned and the store keeps
  the old row (or none). Without the flag the report of the differ is returned.
\<close>

theorem check_page_persist_type_error:
  "check_page no_digits (example_env (ustr ''t1'')) example_url True example_store =
     (Inl type_error, example_store) \<and>
   check_page no_digits (example_env (ustr ''t1'')) example_url True (\<lambda>u. None) =
     (Inl type_error, (\<lambda>u. None)) \<and>
   load_state (snd (check_page no_digits (example_env (ustr ''t1'')) example_url True
      example_store)) example_url = Object (example_snapshot (ustr ''t0'')) \<and>
   check_page no_digits (example_env (ustr ''t1'')) example_url False example_store =
     (Inr \<lparr>changed = False, changes = [], old = Some (example_snapshot (ustr ''t0'')),
           new = example_snapshot (ustr ''t1'')\<rparr>, example_store)"
proof -
  have s: "summarize_changes no_digits (Some (example_snapshot (ustr ''t0'')))
      (example_snapshot (ustr ''t1'')) =
      \<lparr>changed = False, changes = [], old = Some (example_snapshot (ustr ''t0'')),
       new = example_snapshot (ustr ''t1'')\<rparr>"
    by (rule summarize_same_fields) (simp_all add: example_snapshot_def)
  have l: "load_state example_store example_url = Object (example_snapshot (ustr ''t0''))"
    by (simp add: load_state_def example_store_def json_loads_def)
  show ?thesis
    by (simp add: check_page_save [OF example_fetch example_build_snapshot example_prior(1)]
        check_page_save [OF example_fetch example_build_snapshot example_prior(2)]
        check_page_no_save [OF example_fetch example_build_snapshot example_prior(1)] s l)
qed

text \<open>
  C3. Two checks in succession of a page that answers with the same HTML, on a store
  without a row for the URL: with the persist flag both raise \<open>TypeError\<close>; a second
  check without the flag reports \<open>changed = True\<close> with the message that no prior
  record existed, whatever the flag of the first check was, since the first check wrote
  nothing. (The differ itself reports no change for snapshots that agree on price,
  availability and details: \<open>summarize_same_fields\<close>.)
\<close>

theorem second_check_sees_no_prior_record:
  "check_page no_digits (example_env (ustr ''t1'')) example_url True (\<lambda>u. None) =
     (Inl type_error, (\<lambda>u. None)) \<and>
   check_page no_digits (example_env (ustr ''t2'')) example_url True
       (snd (check_page no_digits (example_env (ustr ''t1'')) example_url True (\<lambda>u. None))) =
     (Inl type_error, (\<lambda>u. None)) \<and>
   check_page no_digits (example_env (ustr ''t2'')) example_url False
       (snd (check_page no_digits (example_env (ustr ''t1'')) example_url True (\<lambda>u. None))) =
     (Inr \<lparr>changed = True, changes = [no_prior_message], old = None,
           new = example_snapshot (ustr ''t2'')\<rparr>, (\<lambda>u. None)) \<and>
   check_page no_digits (example_env (ustr ''t2'')) example_url False
       (snd (check_page no_digits (example_env (ustr ''t1'')) example_url False (\<lambda>u. None))) =
     (Inr \<lparr>changed = True, changes = [no_prior_message], old = None,
           new = example_snapshot (ustr ''t2'')\<rparr>, (\<lambda>u. None))"
  by (simp add: check_page_never_writes
      check_page_save [OF example_fetch example_build_snapshot example_prior(2)]
      check_page_no_save [OF example_fetch example_build_snapshot example_prior(2)]
      summarize_changes_def)


section \<open>Properties of the batch run\<close>

lemma example_check_persist:
  "check_page no_digits (example_env now) url True (\<lambda>u. None) = (Inl type_error, (\<lambda>u. None))"
  by (rule check_page_save [OF example_fetch example_build_snapshot example_prior(2)])

lemma example_check_no_save:
  "check_page no_digits (example_env now) url False (\<lambda>u. None) =
     (Inr \<lparr>changed = True, changes = [no_prior_message], old = None,
           new = example_snapshot now\<rparr>, (\<lambda>u. None))"
  by (simp add: check_page_no_save [OF example_fetch example_build_snapshot example_prior(2)]
      summarize_changes_def)

lemma failing_check:
  "check_page nd failing_env url flag st = (Inl (Error (ustr ''timeout'')), st)"
  by (rule check_page_fetch_error) (simp add: failing_env_def)

text \<open>
  C9. A run over three URLs of which the second is not retrieved. Each URL gets one
  entry, in order, and the second is the error record of its failure. With saving (the
  default) the first and the third entry are error records as well, with the message of
  the \<open>TypeError\<close> of \<open>check_page\<close>; with \<open>--no-save\<close> they are full reports.
\<close>

theorem batch_with_saving_has_no_reports:
  "fst (main no_digits example_world
          \<lparr>urls = [ustr ''a'', ustr ''b'', ustr ''c''], no_save = False, json = True\<rparr>
          (\<lambda>u. None)) =
     [(ustr ''a'', ErrorRecord ([39] @ ustr ''bool'' @ [39] @ ustr '' object is not callable'')),
      (ustr ''b'', ErrorRecord (ustr ''timeout'')),
      (ustr ''c'', ErrorRecord ([39] @ ustr ''bool'' @ [39] @ ustr '' object is not callable''))] \<and>
   fst (main no_digits example_world
          \<lparr>urls = [ustr ''a'', ustr ''b'', ustr ''c''], no_save = True, json = True\<rparr>
          (\<lambda>u. None)) =
     [(ustr ''a'', Report \<lparr>changed = True, changes = [no_prior_message], old = None,
                            new = example_snapshot (ustr ''t1'')\<rparr>),
      (ustr ''b'', ErrorRecord (ustr ''timeout'')),
      (ustr ''c'', Report \<lparr>changed = True, changes = [no_prior_message], old = None,
                            new = example_snapshot (ustr ''t1'')\<rparr>)]"
  by (simp add: main_def check_one_def example_world_def example_check_persist
      example_check_no_save failing_check message_def type_error_def)
     (simp add: ustr_def)


section \<open>Properties of the availability keywords\<close>





















end
